theory Spec2Isabelle
  imports Main "HOL-Library.AList" "HOL-Library.Sublist"
begin

section \<open>JavaScript values shared by both source files\<close>

text \<open>
  JSON values as \<^verbatim>\<open>JSON.parse\<close> returns them. Numbers are the integers: the
  timestamps of the store are \<^verbatim>\<open>Date.now()\<close> (epoch milliseconds); fractional
  numbers, NaN and the infinities are IEEE doubles and stay outside this development.
  An object is the list of its own properties, keys distinct.
\<close>

datatype json =
  JNull
| JBool bool
| JNum int
| JStr string
| JArr "json list"
| JObj "(string \<times> json) list"

text \<open>
  Text that is handed to \<^verbatim>\<open>JSON.parse\<close> (the content of the history file, the
  \<^verbatim>\<open>arguments\<close> of a tool call) is represented by what the parser makes of it:
  the empty string, non-empty text that is not JSON, or the serialisation of a value.
  \<^verbatim>\<open>JSON.stringify\<close> produces the last form.
\<close>

datatype wire_text = EmptyText | Malformed | Serialised json

datatype js_error = SyntaxError | TypeError | Fault string

definition JSON_parse :: "wire_text \<Rightarrow> js_error + json" where
  "JSON_parse t = (case t of
      EmptyText \<Rightarrow> Inl SyntaxError
    | Malformed \<Rightarrow> Inl SyntaxError
    | Serialised j \<Rightarrow> Inr j)"

definition JSON_stringify :: "json \<Rightarrow> wire_text" where
  "JSON_stringify j = Serialised j"

text \<open>\<^verbatim>\<open>n.toString()\<close> for a non-negative integer below 1e21 (decimal digits).\<close>

definition digit_char :: "nat \<Rightarrow> char" where
  "digit_char d = char_of (48 + d)"

fun nat_toString :: "nat \<Rightarrow> string" where
  "nat_toString n =
     (if n < 10 then [digit_char n] else nat_toString (n div 10) @ [digit_char (n mod 10)])"

declare nat_toString.simps [simp del]

definition int_toString :: "int \<Rightarrow> string" where
  "int_toString i = (if i < 0 then CHR ''-'' # nat_toString (nat (- i)) else nat_toString (nat i))"

text \<open>
  \<^verbatim>\<open>xs.slice(start)\<close> for an integer \<open>start\<close>: a negative start counts from the end
  and is clamped at the first element, a non-negative one is clamped at the length.
  \<^verbatim>\<open>-0\<close> is \<open>0\<close>, so \<^verbatim>\<open>xs.slice(-0)\<close> is the whole array.
\<close>

definition slice_from :: "'a list \<Rightarrow> int \<Rightarrow> 'a list" where
  "slice_from xs start =
     (let len = int (length xs);
          k = (if start < 0 then max (len + start) 0 else min start len)
      in drop (nat k) xs)"

section \<open>The chat history store (src/services/chatHistory.ts)\<close>

record ChatMessage =
  timestamp :: int
  msg_from :: string
  content :: string

record UserChatHistory =
  userId :: string
  messages :: "ChatMessage list"

text \<open>
  The file \<^verbatim>\<open>chat_history.json\<close>: absent, present but unreadable
  (\<^verbatim>\<open>readFileSync\<close> throws), or holding text.
\<close>

datatype file_state = Absent | Unreadable js_error | Holds wire_text

text \<open>
  What one call of \<^verbatim>\<open>fs.writeFileSync\<close> does: it writes the text, or it throws and
  leaves the file in some state.
\<close>

datatype write_outcome = Written | WriteFails js_error file_state

text \<open>
  The store object together with the two parts of the world it touches. \<open>data\<close> is
  the \<^verbatim>\<open>Map\<close> in insertion order (\<open>map_of\<close> is \<^verbatim>\<open>get\<close>, \<open>AList.update\<close> is
  \<^verbatim>\<open>set\<close>, \<open>AList.delete\<close> is \<^verbatim>\<open>delete\<close>); \<open>console_error\<close> collects the calls of
  \<^verbatim>\<open>console.error\<close>.
\<close>

record ChatHistoryStore =
  data :: "(string \<times> UserChatHistory) list"
  history_file :: file_state
  console_error :: "(string \<times> js_error) list"

definition MAX_MESSAGES :: nat where
  "MAX_MESSAGES = 10"

subsection \<open>Serialisation\<close>

definition message_to_json :: "ChatMessage \<Rightarrow> json" where
  "message_to_json m =
     JObj [(''timestamp'', JNum (timestamp m)),
           (''from'', JStr (msg_from m)),
           (''content'', JStr (content m))]"

definition history_to_json :: "UserChatHistory \<Rightarrow> json" where
  "history_to_json h =
     JObj [(''userId'', JStr (userId h)),
           (''messages'', JArr (map message_to_json (messages h)))]"

text \<open>
  \<^verbatim>\<open>Object.fromEntries(this.data)\<close>: one property per entry of the map. An engine
  enumerates the properties of an object with the integer-like keys first; the order of
  the properties is kept as the map's here, and no method of the store reads it.
\<close>

definition Object_fromEntries :: "(string \<times> UserChatHistory) list \<Rightarrow> json" where
  "Object_fromEntries d = JObj (map (\<lambda>(k, h). (k, history_to_json h)) d)"

text \<open>
  \<^verbatim>\<open>Object.entries(v)\<close>: throws on \<^verbatim>\<open>null\<close>, lists the own properties of an object,
  the indexed elements of an array or string, and nothing for a number or a boolean.
\<close>

definition indexed :: "'a list \<Rightarrow> (string \<times> 'a) list" where
  "indexed xs = zip (map nat_toString [0..<length xs]) xs"

definition Object_entries :: "json \<Rightarrow> js_error + (string \<times> json) list" where
  "Object_entries v = (case v of
      JNull \<Rightarrow> Inl TypeError
    | JBool b \<Rightarrow> Inr []
    | JNum n \<Rightarrow> Inr []
    | JStr s \<Rightarrow> Inr (indexed (map (\<lambda>c. JStr [c]) s))
    | JArr xs \<Rightarrow> Inr (indexed xs)
    | JObj fs \<Rightarrow> Inr fs)"

text \<open>
  The source stores the parsed values unchecked under the type
  \<^verbatim>\<open>Map<string, UserChatHistory>\<close>. The model is typed, so it reads a parsed value
  back at that interface: an object with a string \<^verbatim>\<open>userId\<close> and an array
  \<^verbatim>\<open>messages\<close> of objects with a number \<^verbatim>\<open>timestamp\<close> and strings \<^verbatim>\<open>from\<close> and
  \<^verbatim>\<open>content\<close>. A file whose values do not have that shape is outside the typed
  model (\<open>Ill_typed_file\<close>); the source would keep such values as they are.
\<close>

datatype outside_model = Ill_typed_file

definition message_of_json :: "json \<Rightarrow> ChatMessage option" where
  "message_of_json v = (case v of
      JObj fs \<Rightarrow>
        (case (map_of fs ''timestamp'', map_of fs ''from'', map_of fs ''content'') of
           (Some (JNum t), Some (JStr f), Some (JStr c)) \<Rightarrow>
             Some \<lparr>timestamp = t, msg_from = f, content = c\<rparr>
         | _ \<Rightarrow> None)
    | _ \<Rightarrow> None)"

definition history_of_json :: "json \<Rightarrow> UserChatHistory option" where
  "history_of_json v = (case v of
      JObj fs \<Rightarrow>
        (case (map_of fs ''userId'', map_of fs ''messages'') of
           (Some (JStr u), Some (JArr ms)) \<Rightarrow>
             map_option (\<lambda>ms'. \<lparr>userId = u, messages = ms'\<rparr>) (those (map message_of_json ms))
         | _ \<Rightarrow> None)
    | _ \<Rightarrow> None)"

definition typed_entries :: "(string \<times> json) list \<Rightarrow> (string \<times> UserChatHistory) list option" where
  "typed_entries es = those (map (\<lambda>(k, v). map_option (Pair k) (history_of_json v)) es)"

subsection \<open>The methods\<close>

definition loadData :: "ChatHistoryStore \<Rightarrow> outside_model + ChatHistoryStore" where
  "loadData s = (case history_file s of
      Absent \<Rightarrow> Inr s
    | Unreadable e \<Rightarrow>
        Inr (s\<lparr>console_error := console_error s @ [(''Error loading chat history:'', e)]\<rparr>)
    | Holds t \<Rightarrow>
        (case JSON_parse t of
           Inl e \<Rightarrow>
             Inr (s\<lparr>console_error := console_error s @ [(''Error loading chat history:'', e)]\<rparr>)
         | Inr fileData \<Rightarrow>
             (case Object_entries fileData of
                Inl e \<Rightarrow>
                  Inr (s\<lparr>console_error :=
                           console_error s @ [(''Error loading chat history:'', e)]\<rparr>)
              | Inr es \<Rightarrow>
                  (case typed_entries es of
                     None \<Rightarrow> Inl Ill_typed_file
                   | Some d \<Rightarrow> Inr (s\<lparr>data := d\<rparr>)))))"

text \<open>The constructor: an empty map, then \<open>loadData\<close>, in the world it is run in.\<close>

definition new_ChatHistoryStore ::
  "file_state \<Rightarrow> (string \<times> js_error) list \<Rightarrow> outside_model + ChatHistoryStore" where
  "new_ChatHistoryStore f errs = loadData \<lparr>data = [], history_file = f, console_error = errs\<rparr>"

definition saveData :: "write_outcome \<Rightarrow> ChatHistoryStore \<Rightarrow> ChatHistoryStore" where
  "saveData w s =
     (let dataObject = Object_fromEntries (data s);
          text = JSON_stringify dataObject
      in case w of
           Written \<Rightarrow> s\<lparr>history_file := Holds text\<rparr>
         | WriteFails e f \<Rightarrow>
             s\<lparr>history_file := f,
               console_error := console_error s @ [(''Error saving chat history:'', e)]\<rparr>)"

text \<open>
  \<open>addMessage userId from content\<close>; \<open>now\<close> is what \<^verbatim>\<open>Date.now()\<close> returns and \<open>w\<close>
  what the write does.
\<close>

definition addMessage ::
  "string \<Rightarrow> string \<Rightarrow> string \<Rightarrow> int \<Rightarrow> write_outcome \<Rightarrow> ChatHistoryStore \<Rightarrow> ChatHistoryStore" where
  "addMessage uid frm txt now w s =
     (let userHistory = (case map_of (data s) uid of
                           Some h \<Rightarrow> h
                         | None \<Rightarrow> \<lparr>userId = uid, messages = []\<rparr>);
          pushed = userHistory\<lparr>messages :=
                     messages userHistory @ [\<lparr>timestamp = now, msg_from = frm, content = txt\<rparr>]\<rparr>;
          trimmed = (if length (messages pushed) > MAX_MESSAGES
                     then pushed\<lparr>messages := slice_from (messages pushed) (- int MAX_MESSAGES)\<rparr>
                     else pushed)
      in saveData w (s\<lparr>data := AList.update uid trimmed (data s)\<rparr>))"

text \<open>\<open>getHistory userId limit\<close>; \<open>None\<close> is the omitted argument, which defaults.\<close>

definition getHistory :: "ChatHistoryStore \<Rightarrow> string \<Rightarrow> int option \<Rightarrow> ChatMessage list" where
  "getHistory s uid limit =
     (case map_of (data s) uid of
        None \<Rightarrow> []
      | Some userHistory \<Rightarrow>
          slice_from (messages userHistory)
            (- (case limit of None \<Rightarrow> int MAX_MESSAGES | Some l \<Rightarrow> l)))"

definition clearHistory :: "string \<Rightarrow> write_outcome \<Rightarrow> ChatHistoryStore \<Rightarrow> ChatHistoryStore" where
  "clearHistory uid w s = saveData w (s\<lparr>data := AList.delete uid (data s)\<rparr>)"

section \<open>The message pipeline (openai.ts)\<close>

subsection \<open>Strings\<close>

fun starts_with :: "string \<Rightarrow> string \<Rightarrow> bool" where
  "starts_with [] s = True"
| "starts_with (p # ps) [] = False"
| "starts_with (p # ps) (c # cs) = (p = c \<and> starts_with ps cs)"

text \<open>
  \<^verbatim>\<open>GetSubstitution\<close> for a string pattern (no capture groups): in the replacement text
  \<^verbatim>\<open>$$\<close> is a dollar sign, \<^verbatim>\<open>$&\<close> the matched text, \<^verbatim>\<open>$`\<close> the text before the
  match and \<^verbatim>\<open>$'\<close> the text after it; every other character stands for itself.
\<close>

fun GetSubstitution :: "string \<Rightarrow> string \<Rightarrow> string \<Rightarrow> string \<Rightarrow> string" where
  "GetSubstitution matched pre post [] = []"
| "GetSubstitution matched pre post [c] = [c]"
| "GetSubstitution matched pre post (c # d # r) =
     (if c = CHR ''$'' \<and> d = CHR ''$'' then CHR ''$'' # GetSubstitution matched pre post r
      else if c = CHR ''$'' \<and> d = CHR ''&'' then matched @ GetSubstitution matched pre post r
      else if c = CHR ''$'' \<and> d = CHR 0x60 then pre @ GetSubstitution matched pre post r
      else if c = CHR ''$'' \<and> d = CHR 0x27 then post @ GetSubstitution matched pre post r
      else c # GetSubstitution matched pre post (d # r))"

text \<open>
  \<^verbatim>\<open>s.replace(pattern, replacement)\<close> with a string pattern: only the first occurrence
  is replaced. \<open>replace_at pre s\<close> scans \<open>s\<close>, with \<open>pre\<close> the text already passed
  (reversed).
\<close>

fun replace_at :: "string \<Rightarrow> string \<Rightarrow> string \<Rightarrow> string \<Rightarrow> string" where
  "replace_at pre [] pat rep =
     (if pat = [] then GetSubstitution [] (rev pre) [] rep else [])"
| "replace_at pre (c # cs) pat rep =
     (if starts_with pat (c # cs)
      then GetSubstitution pat (rev pre) (drop (length pat) (c # cs)) rep
             @ drop (length pat) (c # cs)
      else c # replace_at (c # pre) cs pat rep)"

definition replace :: "string \<Rightarrow> string \<Rightarrow> string \<Rightarrow> string" where
  "replace s pat rep = replace_at [] s pat rep"

text \<open>\<^verbatim>\<open>s.includes(pattern)\<close>.\<close>

fun includes_text :: "string \<Rightarrow> string \<Rightarrow> bool" where
  "includes_text [] pat = (pat = [])"
| "includes_text (c # cs) pat = (starts_with pat (c # cs) \<or> includes_text cs pat)"

fun join_lines :: "string list \<Rightarrow> string" where
  "join_lines [] = []"
| "join_lines [l] = l"
| "join_lines (l # m # ls) = l @ CHR 0x0A # join_lines (m # ls)"

text \<open>The bullet U+2022 of the template, in UTF-8.\<close>

definition bullet :: string where
  "bullet = [CHR 0xE2, CHR 0x80, CHR 0xA2]"

definition SYSTEM_PROMPT_lines :: "string list" where
  \<open>SYSTEM_PROMPT_lines =
    [''Your name is Kira Kuru, an AI hedge fund manager who combines genius-level analysis with strategic market insights.'',
     ''You are currently interacting with user as a Telegram bot that manages a crypto wallet for them in 1-on-1 conversations. '',
     '''',
     ''Wallet Address: {walletAddress}'',
     ''Current USDC Balance: {usdcBalance} USDC'',
     ''Current USDi Balance: {usdiBalance} USDi'',
     ''Current SOL Balance: {solBalance} SOL'',
     ''Use these current balances to help the user'',
     '''',
     ''Product Information:'',
     bullet @ '' USDi is an interest-bearing token with 1:1 USD peg'',
     bullet @ '' Users can deposit USDC and convert to USDi to start minting'',
     bullet @ '' Yield is generated through delta-neutral strategies (funding rate, spread, MEV arbitrage)'',
     bullet @ '' Profits are automatically distributed to USDi holders'',
     bullet @ '' Longer holding periods and larger amounts earn proportionally higher yields'',
     bullet @ '' More info: https://docs.kira.trading/'',
     '''',
     ''Current Status:'',
     bullet @ '' Only accepting USDC deposits'',
     bullet @ '' Users must convert USDC to USDi to earn yield'',
     '''',
     ''You can only execute 1 function/tool.'',
     '''',
     ''Available functions:'',
     ''- chat: Handle user interaction requiring text responses'',
     ''- mint: Convert USDC to USDi (requires amount)'',
     ''- redeem: Convert USDi to USDC (requires amount)'',
     ''- withdraw: Withdraw USDC (requires amount and address, always ask for the amount and address if not specified)'',
     ''- deposit: Sends the wallet address in chat to user. '',
     '''',
     ''Response patterns [Replace x with the current balance mentioned above]:'',
     ''1. For deposit inquiries:'',
     ''   Use the deposit function for sending the wallet address to the user.'',
     '''',
     ''2. For yield/mint inquiries:'',
     ''   "Yield can be earned by converting USDC in your wallet to USDi. I can see there is x amount of USDC in your wallet."'',
     '''',
     ''3. For conversion requests:'',
     ''   If USDC exists: "There is x amount of USDC in your wallet. How much do you want to convert?"'',
     ''   If no USDC: "There is 0 amount of USDC in your wallet. Do you want to deposit more USDC? Here is your wallet address:"'',
     '''',
     ''4. For general withdrawal:'',
     ''   "Do you want to withdraw USDi or USDC? '',
     ''   Withdraw USDi will convert USDi to USDC in your wallet'',
     ''   Withdraw USDC will send USDC to a different wallet address, please give me a new wallet address."'',
     '''',
     ''5. For USDi withdrawal:'',
     ''   "You have x amount USDi, how much do you want to withdraw?"'',
     '''',
     ''6. For USDC withdrawal:'',
     ''   "You have x amount USDC, how much do you want to withdraw? And what's receiving wallet address?"'',
     '''',
     ''Guidelines:'',
     ''1. For amounts: Must have explicit numbers, otherwise use chat function'',
     ''2. For withdrawals: Need both amount and address, otherwise use chat function to ask user for the amount and/or address'',
     ''3. For minting/redeeming/withdrawal, always ask user for the amount to be processed. '',
     ''4. Always verify the amount and/or address being passed. '',
     ''5. Do not pass amount without user approval. If amount is not passed, use chat function to query for the amount, do not use 100% of balance.'',
     ''6. Default to chat function if unsure'',
     ''7. Always use the current balance mentioned'',
     ''Current USDC Balance: {usdcBalance} USDC'',
     ''Current USDi Balance: {usdiBalance} USDi'',
     ''Current SOL Balance: {solBalance} SOL'']\<close>

definition SYSTEM_PROMPT :: string where
  "SYSTEM_PROMPT = join_lines SYSTEM_PROMPT_lines"

subsection \<open>Collaborators and observable events\<close>

datatype wallet = Wallet (publicKey: string)

datatype role = RoleUser | RoleAssistant | RoleSystem

type_synonym transcript = "(role \<times> string) list"

datatype tool_call = ToolCall (function_name: string) (function_arguments: wire_text)

datatype completion_message =
  CompletionMessage (tool_calls: "tool_call list option") (message_content: "string option")

datatype completion = Completion (choices: "completion_message list")

text \<open>
  A call of one of the imported command handlers, with the arguments the dispatcher
  passes (\<open>None\<close> is \<^verbatim>\<open>undefined\<close>).
\<close>

datatype handler_call =
  handleMintAmount "json option"
| handleBalance
| handleConvertAmount "json option"
| handleWithdrawalAddress "json option" "json option"
| handleDeposit

datatype outgoing = Plain string | MarkdownV2 string

datatype log_entry =
  LogTranscript transcript
| LogDetermining string
| LogToolCall "tool_call option"
| LogResponse "string option"

text \<open>
  What a turn does that can be seen from outside: a line on the console, a reply that the
  transport delivered, a handler that was called.
\<close>

datatype event =
  ConsoleLog log_entry
| ConsoleError js_error
| Reply outgoing
| Invoke handler_call

text \<open>
  The collaborators of one turn, each given by what its call does: the wallet store
  and the completion service return a value or throw, a handler and \<^verbatim>\<open>ctx.reply\<close>
  return or throw. \<open>toFixed\<close> is \<^verbatim>\<open>Number.prototype.toFixed\<close> on the numbers
  \<open>'n\<close> the wallet store returns. The request always carries the same \<^verbatim>\<open>tools\<close>
  (mint, redeem, withdraw, deposit, chat) and \<^verbatim>\<open>tool_choice: "required"\<close>, so the
  service is a function of the transcript; what it answers is a completion of the
  client library's type, whose tool name is any string.
\<close>

record 'n collaborators =
  checkSolBalance :: "string \<Rightarrow> js_error + 'n"
  checkUsdcBalance :: "string \<Rightarrow> js_error + 'n"
  checkUsdiBalance :: "string \<Rightarrow> js_error + 'n"
  getWallet :: "string \<Rightarrow> js_error + wallet option"
  toFixed :: "'n \<Rightarrow> nat \<Rightarrow> string"
  create_completion :: "transcript \<Rightarrow> js_error + completion"
  run_handler :: "handler_call \<Rightarrow> js_error option"
  deliver :: "outgoing \<Rightarrow> js_error option"

record MyContext =
  message_text :: "string option"
  from_id :: "int option"

datatype turn_end = Returned | Escaped js_error

subsection \<open>The functions\<close>

definition ctx_reply :: "'n collaborators \<Rightarrow> outgoing \<Rightarrow> event list \<times> js_error option" where
  "ctx_reply env out =
     (case deliver env out of None \<Rightarrow> ([Reply out], None) | Some e \<Rightarrow> ([], Some e))"

definition call_handler :: "'n collaborators \<Rightarrow> handler_call \<Rightarrow> event list \<times> js_error option" where
  "call_handler env h = ([Invoke h], run_handler env h)"

text \<open>The characters of the class \<^verbatim>\<open>[[\]()`>#+\-=|{}.!_\\]\<close>.\<close>

definition markdown_special :: "char list" where
  "markdown_special =
     [CHR ''['', CHR '']'', CHR ''('', CHR '')'', CHR 0x60, CHR ''>'', CHR ''#'', CHR ''+'',
      CHR ''-'', CHR ''='', CHR ''|'', CHR ''{'', CHR ''}'', CHR ''.'', CHR ''!'', CHR ''_'',
      CHR 0x5C]"

definition escapeMarkdown :: "string \<Rightarrow> string" where
  "escapeMarkdown text = concat (map (\<lambda>c. if c \<in> set markdown_special then [CHR 0x5C, c] else [c]) text)"

text \<open>
  \<open>chat ctx message\<close>: \<^verbatim>\<open>text.replace\<close> is a TypeError unless the message is a string.
\<close>

definition chat :: "'n collaborators \<Rightarrow> json option \<Rightarrow> event list \<times> js_error option" where
  "chat env message =
     (case message of
        Some (JStr text) \<Rightarrow> ctx_reply env (MarkdownV2 (escapeMarkdown text))
      | _ \<Rightarrow> ([], Some TypeError))"

text \<open>
  \<^verbatim>\<open>args.key\<close> for one of the keys the dispatcher reads (\<^verbatim>\<open>amount\<close>, \<^verbatim>\<open>address\<close>,
  \<^verbatim>\<open>message\<close>): a TypeError on \<^verbatim>\<open>null\<close>, the property of an object, and
  \<^verbatim>\<open>undefined\<close> on every other value.
\<close>

definition get_property :: "json \<Rightarrow> string \<Rightarrow> js_error + json option" where
  "get_property args key = (case args of
      JNull \<Rightarrow> Inl TypeError
    | JObj fs \<Rightarrow> Inr (map_of fs key)
    | _ \<Rightarrow> Inr None)"

text \<open>The \<^verbatim>\<open>switch\<close> on \<^verbatim>\<open>toolCall.function.name\<close>; it has no default case.\<close>

definition dispatch :: "'n collaborators \<Rightarrow> string \<Rightarrow> json \<Rightarrow> event list \<times> js_error option" where
  "dispatch env name args =
     (if name = ''mint'' then
        (case get_property args ''amount'' of
           Inl e \<Rightarrow> ([], Some e)
         | Inr amount \<Rightarrow> call_handler env (handleMintAmount amount))
      else if name = ''balance'' then call_handler env handleBalance
      else if name = ''redeem'' then
        (case get_property args ''amount'' of
           Inl e \<Rightarrow> ([], Some e)
         | Inr amount \<Rightarrow> call_handler env (handleConvertAmount amount))
      else if name = ''withdraw'' then
        (case get_property args ''address'' of
           Inl e \<Rightarrow> ([], Some e)
         | Inr address \<Rightarrow>
             (case get_property args ''amount'' of
                Inl e \<Rightarrow> ([], Some e)
              | Inr amount \<Rightarrow> call_handler env (handleWithdrawalAddress address amount)))
      else if name = ''deposit'' then call_handler env handleDeposit
      else if name = ''chat'' then
        (case get_property args ''message'' of
           Inl e \<Rightarrow> ([], Some e)
         | Inr message \<Rightarrow> chat env message)
      else ([], None))"

text \<open>The body of the \<^verbatim>\<open>try\<close> block: the events it produced and what it threw.\<close>

definition try_block :: "'n collaborators \<Rightarrow> transcript \<Rightarrow> event list \<times> js_error option" where
  "try_block env msgs =
     (case create_completion env msgs of
        Inl e \<Rightarrow> ([], Some e)
      | Inr completion \<Rightarrow>
          (case choices completion of
             [] \<Rightarrow> ([], Some TypeError)
           | choice # _ \<Rightarrow>
               (let toolCall = (case tool_calls choice of
                                  None \<Rightarrow> None
                                | Some [] \<Rightarrow> None
                                | Some (tc # _) \<Rightarrow> Some tc);
                    response = message_content choice;
                    logs = [ConsoleLog (LogToolCall toolCall), ConsoleLog (LogResponse response)]
                in case toolCall of
                     Some tc \<Rightarrow>
                       (case JSON_parse (if function_arguments tc = EmptyText
                                         then Serialised (JObj [])
                                         else function_arguments tc) of
                          Inl e \<Rightarrow> (logs, Some e)
                        | Inr args \<Rightarrow>
                            (case dispatch env (function_name tc) args of
                               (evs, thrown) \<Rightarrow> (logs @ evs, thrown)))
                   | None \<Rightarrow>
                       (case (if response = None \<or> response = Some [] then
                                ctx_reply env
                                  (Plain ''I couldn't process that request. Please try again.'')
                              else ctx_reply env (Plain (the response))) of
                          (evs, thrown) \<Rightarrow> (logs @ evs, thrown)))))"

definition systemPromptWithData ::
  "('n \<Rightarrow> nat \<Rightarrow> string) \<Rightarrow> wallet option \<Rightarrow> 'n \<Rightarrow> 'n \<Rightarrow> 'n \<Rightarrow> string" where
  "systemPromptWithData to_fixed wallet usdcBalance usdiBalance solBalance =
     replace
       (replace
          (replace
             (replace SYSTEM_PROMPT ''{walletAddress}''
                (case wallet of
                   None \<Rightarrow> ''Not created yet''
                 | Some w \<Rightarrow> if publicKey w = [] then ''Not created yet'' else publicKey w))
             ''{usdcBalance}'' (to_fixed usdcBalance 5))
          ''{usdiBalance}'' (to_fixed usdiBalance 5))
       ''{solBalance}'' (to_fixed solBalance 5)"

definition transcript_for :: "ChatMessage list \<Rightarrow> string \<Rightarrow> string \<Rightarrow> transcript" where
  "transcript_for history prompt text =
     map (\<lambda>msg. (if msg_from msg = ''user'' then RoleUser else RoleAssistant, content msg)) history
     @ [(RoleSystem, prompt), (RoleUser, text)]"

definition processMessage ::
  "'n collaborators \<Rightarrow> MyContext \<Rightarrow> ChatHistoryStore \<Rightarrow> event list \<times> turn_end" where
  "processMessage env ctx chatHistoryStore =
     (case message_text ctx of
        None \<Rightarrow> ([], Returned)
      | Some text \<Rightarrow>
     (case from_id ctx of
        None \<Rightarrow> ([], Returned)
      | Some fid \<Rightarrow>
     (if text = [] \<or> fid = 0 then ([], Returned)
      else
     (let uid = int_toString fid in
     (case checkSolBalance env uid of
        Inl e \<Rightarrow> ([], Escaped e)
      | Inr solBalance \<Rightarrow>
     (case checkUsdcBalance env uid of
        Inl e \<Rightarrow> ([], Escaped e)
      | Inr usdcBalance \<Rightarrow>
     (case checkUsdiBalance env uid of
        Inl e \<Rightarrow> ([], Escaped e)
      | Inr usdiBalance \<Rightarrow>
     (case getWallet env uid of
        Inl e \<Rightarrow> ([], Escaped e)
      | Inr wallet \<Rightarrow>
     (let prompt = systemPromptWithData (toFixed env) wallet usdcBalance usdiBalance solBalance;
          history = getHistory chatHistoryStore uid None;
          msgs = transcript_for history prompt text;
          logs = [ConsoleLog (LogTranscript msgs), ConsoleLog (LogDetermining text)]
      in (case try_block env msgs of
            (evs, None) \<Rightarrow> (logs @ evs, Returned)
          | (evs, Some error) \<Rightarrow>
              (case ctx_reply env (Plain ''Sorry, something went wrong.'') of
                 (evs', None) \<Rightarrow> (logs @ evs @ [ConsoleError error] @ evs', Returned)
               | (evs', Some e') \<Rightarrow>
                   (logs @ evs @ [ConsoleError error] @ evs', Escaped e'))))))))))))"


subsection \<open>Reading a trace\<close>

fun is_invoke :: "event \<Rightarrow> bool" where
  "is_invoke (Invoke h) = True"
| "is_invoke e = False"

fun is_reply :: "event \<Rightarrow> bool" where
  "is_reply (Reply out) = True"
| "is_reply e = False"

subsection \<open>Concrete turns\<close>

text \<open>
  A turn of user 42 in which every collaborator works: integer balances, no wallet yet,
  the completion service answering \<open>c\<close>, every handler and every reply succeeding.
\<close>

definition working_env :: "completion \<Rightarrow> int collaborators" where
  "working_env c =
     \<lparr>checkSolBalance = (\<lambda>uid. Inr 1),
      checkUsdcBalance = (\<lambda>uid. Inr 100),
      checkUsdiBalance = (\<lambda>uid. Inr 0),
      getWallet = (\<lambda>uid. Inr None),
      toFixed = (\<lambda>n d. int_toString n @ CHR ''.'' # replicate d CHR ''0''),
      create_completion = (\<lambda>msgs. Inr c),
      run_handler = (\<lambda>h. None),
      deliver = (\<lambda>out. None)\<rparr>"

definition turn_42 :: MyContext where
  "turn_42 = \<lparr>message_text = Some ''withdraw 5'', from_id = Some 42\<rparr>"

definition selecting :: "string \<Rightarrow> json \<Rightarrow> completion" where
  "selecting name args =
     Completion [CompletionMessage (Some [ToolCall name (Serialised args)]) None]"

section \<open>Vocabulary of the statements\<close>

text \<open>The newest \<open>n\<close> elements of a list, in the list's order.\<close>

definition last_n :: "nat \<Rightarrow> 'a list \<Rightarrow> 'a list" where
  "last_n n xs = drop (length xs - n) xs"

text \<open>The messages the store holds for a user, oldest first; none for an unknown user.\<close>

definition stored_messages :: "ChatHistoryStore \<Rightarrow> string \<Rightarrow> ChatMessage list" where
  "stored_messages s uid = (case map_of (data s) uid of None \<Rightarrow> [] | Some h \<Rightarrow> messages h)"

text \<open>
  A sequence of \<open>addMessage\<close> calls for one user: each call with its sender, its content,
  the clock reading and what the write did.
\<close>

type_synonym add_call = "string \<times> string \<times> int \<times> write_outcome"

definition message_of_call :: "add_call \<Rightarrow> ChatMessage" where
  "message_of_call c =
     (case c of (frm, txt, now, w) \<Rightarrow> \<lparr>timestamp = now, msg_from = frm, content = txt\<rparr>)"

fun addMessages :: "string \<Rightarrow> add_call list \<Rightarrow> ChatHistoryStore \<Rightarrow> ChatHistoryStore" where
  "addMessages uid [] s = s"
| "addMessages uid ((frm, txt, now, w) # cs) s =
     addMessages uid cs (addMessage uid frm txt now w s)"

definition empty_store :: ChatHistoryStore where
  "empty_store = \<lparr>data = [], history_file = Absent, console_error = []\<rparr>"

definition eleven_calls :: "add_call list" where
  "eleven_calls = map (\<lambda>i. (''user'', ''hello'', int i, Written)) [0..<11]"

definition two_message_store :: ChatHistoryStore where
  "two_message_store =
     addMessage ''7'' ''assistant'' ''hello'' 2000 Written
       (addMessage ''7'' ''user'' ''hi'' 1000 Written empty_store)"

text \<open>The template from the first \<^verbatim>\<open>{solBalance}\<close> on.\<close>

definition prompt_rest :: string where
  "prompt_rest = '' SOL'' @ CHR 0x0A # join_lines (drop 7 SYSTEM_PROMPT_lines)"

section \<open>Properties of the store\<close>

subsection \<open>Slices and suffixes\<close>

lemma MAX_MESSAGES_pos: "0 < MAX_MESSAGES"
  by (simp add: MAX_MESSAGES_def)

lemma slice_from_neg: "0 < n \<Longrightarrow> slice_from xs (- int n) = drop (length xs - n) xs"
  by (auto simp: slice_from_def Let_def max_def nat_diff_distrib')

lemma suffix_slice_from: "suffix (slice_from xs k) xs"
  by (simp add: slice_from_def Let_def suffix_drop)

lemma length_slice_from: "length (slice_from xs k) \<le> length xs"
  by (simp add: slice_from_def Let_def)

lemma last_n_append: "last_n n (last_n n xs @ ys) = last_n n (xs @ ys)"
proof -
  have "length xs + length ys - (length xs - n + n) + (length xs - n) = length xs + length ys - n"
    by arith
  then show ?thesis
    by (simp add: last_n_def)
qed

lemma last_n_idem: "last_n n (last_n n xs) = last_n n xs"
  using last_n_append [of n xs "[]"] by simp

lemma length_last_n: "length (last_n n xs) \<le> n"
  by (simp add: last_n_def)

lemma suffix_last_n: "suffix (last_n n xs) xs"
  by (simp add: last_n_def suffix_drop)

subsection \<open>One call\<close>

lemma data_saveData: "data (saveData w s) = data s"
  by (cases w) (simp_all add: saveData_def Let_def)

lemma stored_addMessage:
  "stored_messages (addMessage uid frm txt now w s) uid =
     last_n MAX_MESSAGES
       (stored_messages s uid @ [\<lparr>timestamp = now, msg_from = frm, content = txt\<rparr>])"
  by (auto simp: stored_messages_def addMessage_def Let_def data_saveData update_conv' last_n_def
       slice_from_neg [OF MAX_MESSAGES_pos] split: option.splits)

lemma other_addMessage:
  "v \<noteq> uid \<Longrightarrow> map_of (data (addMessage uid frm txt now w s)) v = map_of (data s) v"
  by (simp add: addMessage_def Let_def data_saveData update_conv')

lemma other_clearHistory:
  "v \<noteq> uid \<Longrightarrow> map_of (data (clearHistory uid w s)) v = map_of (data s) v"
  by (simp add: clearHistory_def data_saveData delete_conv')

lemma getHistory_stored:
  "getHistory s uid limit =
     slice_from (stored_messages s uid)
       (- (case limit of None \<Rightarrow> int MAX_MESSAGES | Some l \<Rightarrow> l))"
  by (simp add: getHistory_def stored_messages_def slice_from_def split: option.splits)

lemma message_of_call_tuple:
  "message_of_call (f, t, n, w) = \<lparr>timestamp = n, msg_from = f, content = t\<rparr>"
  by (simp add: message_of_call_def)

subsection \<open>Sequences of calls\<close>

lemma stored_addMessages:
  "stored_messages (addMessages uid calls s) uid =
     (if calls = [] then stored_messages s uid
      else last_n MAX_MESSAGES (stored_messages s uid @ map message_of_call calls))"
proof (induction calls arbitrary: s)
  case Nil
  show ?case by simp
next
  case (Cons c cs)
  obtain f t n w where c: "c = (f, t, n, w)"
    by (cases c) auto
  show ?case
    by (simp add: c Cons.IH stored_addMessage last_n_append message_of_call_tuple)
qed

text \<open>
  C1. After any non-empty sequence of \<open>addMessage\<close> calls for a user, started in any
  store, the stored log of that user has at most \<open>MAX_MESSAGES\<close> messages;
  \<open>getHistory\<close> with the default limit returns the newest \<open>MAX_MESSAGES\<close> of
  everything that was stored and added, oldest first; and with any limit it returns at
  most \<open>MAX_MESSAGES\<close> messages that form a suffix of that chronological sequence, so
  what is dropped is dropped from the old end.
\<close>

theorem bounded_history:
  "calls \<noteq> [] \<Longrightarrow>
     length (stored_messages (addMessages uid calls s) uid) \<le> MAX_MESSAGES \<and>
     getHistory (addMessages uid calls s) uid None =
       last_n MAX_MESSAGES (stored_messages s uid @ map message_of_call calls) \<and>
     (\<forall>limit.
        length (getHistory (addMessages uid calls s) uid limit) \<le> MAX_MESSAGES \<and>
        suffix (getHistory (addMessages uid calls s) uid limit)
          (stored_messages s uid @ map message_of_call calls))"
proof -
  assume ne: "calls \<noteq> []"
  let ?all = "stored_messages s uid @ map message_of_call calls"
  let ?s' = "addMessages uid calls s"
  have st: "stored_messages ?s' uid = last_n MAX_MESSAGES ?all"
    using ne by (simp add: stored_addMessages)
  have len: "length (stored_messages ?s' uid) \<le> MAX_MESSAGES"
    by (simp add: st length_last_n)
  have dflt: "getHistory ?s' uid None = last_n MAX_MESSAGES ?all"
    by (simp add: getHistory_stored slice_from_neg [OF MAX_MESSAGES_pos] st
          last_n_idem [unfolded last_n_def] last_n_def)
  have lim: "length (getHistory ?s' uid limit) \<le> MAX_MESSAGES \<and>
             suffix (getHistory ?s' uid limit) ?all" for limit
  proof
    have "length (getHistory ?s' uid limit) \<le> length (stored_messages ?s' uid)"
      by (simp add: getHistory_stored length_slice_from)
    with len show "length (getHistory ?s' uid limit) \<le> MAX_MESSAGES"
      by simp
    have "suffix (getHistory ?s' uid limit) (stored_messages ?s' uid)"
      by (simp add: getHistory_stored suffix_slice_from)
    moreover have "suffix (stored_messages ?s' uid) ?all"
      by (simp add: st suffix_last_n)
    ultimately show "suffix (getHistory ?s' uid limit) ?all"
      by (rule suffix_order.trans)
  qed
  from len dflt lim show ?thesis by blast
qed

text \<open>
  Eleven messages with timestamps 0 to 10 added to an empty store: the log keeps ten,
  and the one that is gone is the oldest.
\<close>

theorem bounded_history_witness:
  "eleven_calls \<noteq> [] \<and>
   length (stored_messages (addMessages ''7'' eleven_calls empty_store) ''7'') \<le> MAX_MESSAGES \<and>
   getHistory (addMessages ''7'' eleven_calls empty_store) ''7'' None =
     map (\<lambda>i. \<lparr>timestamp = int i, msg_from = ''user'', content = ''hello''\<rparr>) [1..<11]"
proof -
  have ne: "eleven_calls \<noteq> []"
    by (simp add: eleven_calls_def upt_conv_Cons)
  have "last_n MAX_MESSAGES (stored_messages empty_store ''7'' @ map message_of_call eleven_calls) =
     map (\<lambda>i. \<lparr>timestamp = int i, msg_from = ''user'', content = ''hello''\<rparr>) [1..<11]"
    by (simp add: last_n_def MAX_MESSAGES_def stored_messages_def empty_store_def
          eleven_calls_def message_of_call_tuple upt_conv_Cons)
  with ne bounded_history [OF ne, of "''7''" empty_store] show ?thesis
    by simp
qed

subsection \<open>Reading the log\<close>

text \<open>
  For a limit of at least one, \<open>getHistory\<close> returns the newest \<open>min limit len\<close>
  messages; for an unknown user it returns nothing.
\<close>

lemma getHistory_positive_limit:
  "0 < l \<Longrightarrow>
     getHistory s uid (Some l) =
       last_n (min (nat l) (length (stored_messages s uid))) (stored_messages s uid)"
  by (auto simp: getHistory_stored slice_from_def Let_def last_n_def max_def min_def
        nat_diff_distrib' intro!: arg_cong2 [where f = drop])

lemma getHistory_unknown: "map_of (data s) uid = None \<Longrightarrow> getHistory s uid limit = []"
  by (simp add: getHistory_def)

text \<open>
  C7. With the limit 0 the call \<^verbatim>\<open>slice(-limit)\<close> is \<^verbatim>\<open>slice(0)\<close>: for a user with
  two stored messages \<open>getHistory\<close> returns both, where the newest \<open>min 0 2\<close> messages
  are none.
\<close>

theorem getHistory_limit_zero:
  "getHistory two_message_store ''7'' (Some 0) =
     [\<lparr>timestamp = 1000, msg_from = ''user'', content = ''hi''\<rparr>,
      \<lparr>timestamp = 2000, msg_from = ''assistant'', content = ''hello''\<rparr>]"
  by (simp add: two_message_store_def empty_store_def addMessage_def getHistory_def saveData_def
        Let_def MAX_MESSAGES_def slice_from_def)

text \<open>
  C10. A call of \<open>addMessage\<close> or \<open>clearHistory\<close> for one user leaves what
  \<open>getHistory\<close> returns for every other user as it was, for every limit.
\<close>

theorem isolation:
  "v \<noteq> uid \<Longrightarrow>
     getHistory (addMessage uid frm txt now w s) v limit = getHistory s v limit \<and>
     getHistory (clearHistory uid w' s) v limit = getHistory s v limit"
  by (simp add: getHistory_def other_addMessage other_clearHistory)

theorem isolation_witness:
  "''8'' \<noteq> ''7'' \<and>
   getHistory (addMessage ''7'' ''user'' ''more'' 3000 Written
                 (addMessage ''8'' ''user'' ''mine'' 2500 Written two_message_store)) ''8'' None =
     [\<lparr>timestamp = 2500, msg_from = ''user'', content = ''mine''\<rparr>] \<and>
   getHistory (clearHistory ''7'' Written
                 (addMessage ''8'' ''user'' ''mine'' 2500 Written two_message_store)) ''8'' None =
     [\<lparr>timestamp = 2500, msg_from = ''user'', content = ''mine''\<rparr>]"
proof -
  let ?s = "addMessage ''8'' ''user'' ''mine'' 2500 Written two_message_store"
  have ne: "''8'' \<noteq> ''7''"
    by simp
  have "getHistory ?s ''8'' None = [\<lparr>timestamp = 2500, msg_from = ''user'', content = ''mine''\<rparr>]"
    by (simp add: two_message_store_def empty_store_def addMessage_def getHistory_def saveData_def
          Let_def MAX_MESSAGES_def slice_from_def)
  with ne isolation [OF ne, of "''user''" "''more''" 3000 Written ?s None Written] show ?thesis
    by simp
qed

subsection \<open>Persistence\<close>

lemma message_roundtrip: "message_of_json (message_to_json m) = Some m"
  by (simp add: message_of_json_def message_to_json_def)

lemma messages_roundtrip: "those (map (message_of_json \<circ> message_to_json) ms) = Some ms"
  by (induction ms) (simp_all add: message_roundtrip)

lemma history_roundtrip: "history_of_json (history_to_json h) = Some h"
  by (simp add: history_of_json_def history_to_json_def messages_roundtrip)

lemma entries_roundtrip:
  "typed_entries (map (\<lambda>(k, h). (k, history_to_json h)) d) = Some d"
  unfolding typed_entries_def
  by (induction d) (auto simp: history_roundtrip)

lemma reload_saved:
  "new_ChatHistoryStore (history_file (saveData Written s)) errs =
     Inr \<lparr>data = data s, history_file = history_file (saveData Written s), console_error = errs\<rparr>"
  by (simp add: new_ChatHistoryStore_def loadData_def saveData_def Let_def JSON_stringify_def
        JSON_parse_def Object_fromEntries_def Object_entries_def entries_roundtrip)

text \<open>
  C6. For every store, after \<open>saveData\<close> has written the file, a store constructed
  from that file exists and \<open>getHistory\<close> returns for it, for every user and every
  limit, the same messages in the same order as for the store that was saved.
\<close>

theorem persistence_roundtrip:
  "\<exists>t. new_ChatHistoryStore (history_file (saveData Written s)) errs = Inr t \<and>
       (\<forall>uid limit. getHistory t uid limit = getHistory s uid limit)"
  by (simp add: reload_saved getHistory_def)

text \<open>
  C8. Constructed on an absent file the store is empty and nothing is logged;
  constructed on a file whose text does not parse (malformed or empty) the store is empty
  and the fault is logged. When the write fails inside \<open>addMessage\<close> or
  \<open>clearHistory\<close>, the map is what it is after a successful write, the fault is
  logged, the new message is in the log and the cleared user has no history.
\<close>

theorem persistence_fault_tolerance:
  "new_ChatHistoryStore Absent errs =
     Inr \<lparr>data = [], history_file = Absent, console_error = errs\<rparr> \<and>
   new_ChatHistoryStore (Holds Malformed) errs =
     Inr \<lparr>data = [], history_file = Holds Malformed,
          console_error = errs @ [(''Error loading chat history:'', SyntaxError)]\<rparr> \<and>
   new_ChatHistoryStore (Holds EmptyText) errs =
     Inr \<lparr>data = [], history_file = Holds EmptyText,
          console_error = errs @ [(''Error loading chat history:'', SyntaxError)]\<rparr> \<and>
   data (addMessage uid frm txt now (WriteFails e f) s) =
     data (addMessage uid frm txt now Written s) \<and>
   console_error (addMessage uid frm txt now (WriteFails e f) s) =
     console_error s @ [(''Error saving chat history:'', e)] \<and>
   stored_messages (addMessage uid frm txt now (WriteFails e f) s) uid =
     last_n MAX_MESSAGES
       (stored_messages s uid @ [\<lparr>timestamp = now, msg_from = frm, content = txt\<rparr>]) \<and>
   data (clearHistory uid (WriteFails e f) s) = AList.delete uid (data s) \<and>
   console_error (clearHistory uid (WriteFails e f) s) =
     console_error s @ [(''Error saving chat history:'', e)] \<and>
   getHistory (clearHistory uid (WriteFails e f) s) uid limit = []"
proof -
  have load_absent:
    "new_ChatHistoryStore Absent errs =
       Inr \<lparr>data = [], history_file = Absent, console_error = errs\<rparr>"
    by (simp add: new_ChatHistoryStore_def loadData_def)
  have load_malformed:
    "new_ChatHistoryStore (Holds Malformed) errs =
       Inr \<lparr>data = [], history_file = Holds Malformed,
            console_error = errs @ [(''Error loading chat history:'', SyntaxError)]\<rparr>"
    by (simp add: new_ChatHistoryStore_def loadData_def JSON_parse_def)
  have load_empty:
    "new_ChatHistoryStore (Holds EmptyText) errs =
       Inr \<lparr>data = [], history_file = Holds EmptyText,
            console_error = errs @ [(''Error loading chat history:'', SyntaxError)]\<rparr>"
    by (simp add: new_ChatHistoryStore_def loadData_def JSON_parse_def)
  have add_data:
    "data (addMessage uid frm txt now (WriteFails e f) s) =
       data (addMessage uid frm txt now Written s)"
    by (simp add: addMessage_def Let_def data_saveData)
  have add_log:
    "console_error (addMessage uid frm txt now (WriteFails e f) s) =
       console_error s @ [(''Error saving chat history:'', e)]"
    by (simp add: addMessage_def Let_def saveData_def)
  have clear_data: "data (clearHistory uid (WriteFails e f) s) = AList.delete uid (data s)"
    by (simp add: clearHistory_def data_saveData)
  have clear_log:
    "console_error (clearHistory uid (WriteFails e f) s) =
       console_error s @ [(''Error saving chat history:'', e)]"
    by (simp add: clearHistory_def saveData_def Let_def)
  have clear_get: "getHistory (clearHistory uid (WriteFails e f) s) uid limit = []"
    by (simp add: getHistory_def clear_data delete_conv')
  from load_absent load_malformed load_empty add_data add_log clear_data clear_log clear_get
  show ?thesis
    by (simp add: stored_addMessage)
qed

section \<open>Properties of the message pipeline\<close>

subsection \<open>Replacing the first occurrence\<close>

lemma starts_with_append: "starts_with pat xs \<Longrightarrow> starts_with pat (xs @ ys)"
  by (induction pat xs rule: starts_with.induct) simp_all

lemma starts_with_self: "starts_with pat (pat @ zs)"
  by (induction pat) simp_all

lemma starts_with_length: "starts_with pat xs \<Longrightarrow> length pat \<le> length xs"
  by (induction pat xs rule: starts_with.induct) simp_all

lemma includes_text_length: "includes_text xs pat \<Longrightarrow> length pat \<le> length xs"
  by (induction xs) (auto dest: starts_with_length)

lemma includes_text_append_right: "includes_text ys pat \<Longrightarrow> includes_text (xs @ ys) pat"
proof (induction xs)
  case Nil
  then show ?case by simp
next
  case (Cons x xs)
  then show ?case by simp
qed

lemma includes_text_self: "includes_text (pat @ zs) pat"
proof (cases "pat @ zs")
  case Nil
  then show ?thesis by simp
next
  case (Cons c cs)
  have "starts_with pat (pat @ zs)"
    by (rule starts_with_self)
  with Cons show ?thesis by simp
qed

lemma includes_text_mid: "includes_text (xs @ pat @ zs) pat"
  by (rule includes_text_append_right) (rule includes_text_self)

lemma replace_at_local:
  "includes_text xs pat \<Longrightarrow> \<exists>X. replace_at pre (xs @ ys) pat rep = X @ ys"
proof (induction xs arbitrary: pre)
  case Nil
  then have "pat = []" by simp
  then show ?case
    by (cases ys) simp_all
next
  case (Cons c cs)
  show ?case
  proof (cases "starts_with pat (c # cs @ ys)")
    case True
    have "length pat \<le> length (c # cs)"
      using Cons.prems by (rule includes_text_length)
    then have "drop (length pat) ((c # cs) @ ys) = drop (length pat) (c # cs) @ ys"
      by (simp only: drop_append) simp
    then have "drop (length pat) (c # cs @ ys) = drop (length pat) (c # cs) @ ys"
      by simp
    with True have "replace_at pre ((c # cs) @ ys) pat rep =
        (GetSubstitution pat (rev pre) (drop (length pat) (c # cs) @ ys) rep
           @ drop (length pat) (c # cs)) @ ys"
      by simp
    then show ?thesis by blast
  next
    case False
    then have "\<not> starts_with pat (c # cs)"
      using starts_with_append [of pat "c # cs" ys] by auto
    with Cons.prems have "includes_text cs pat"
      by simp
    then obtain X where "replace_at (c # pre) (cs @ ys) pat rep = X @ ys"
      using Cons.IH by blast
    with False have "replace_at pre ((c # cs) @ ys) pat rep = (c # X) @ ys"
      by simp
    then show ?thesis by blast
  qed
qed

lemma replace_local:
  "includes_text xs pat \<Longrightarrow> \<exists>X. replace (xs @ ys) pat rep = X @ ys"
  unfolding replace_def by (rule replace_at_local)

subsection \<open>The rendered instruction block\<close>

lemma SYSTEM_PROMPT_split:
  "SYSTEM_PROMPT =
     (join_lines (take 3 SYSTEM_PROMPT_lines) @ CHR 0x0A # ''Wallet Address: '' @ ''{walletAddress}'') @
     (CHR 0x0A # ''Current USDC Balance: '' @ ''{usdcBalance}'') @
     ('' USDC'' @ CHR 0x0A # ''Current USDi Balance: '' @ ''{usdiBalance}'') @
     ('' USDi'' @ CHR 0x0A # ''Current SOL Balance: '' @ ''{solBalance}'') @
     prompt_rest"
  by (simp add: SYSTEM_PROMPT_def SYSTEM_PROMPT_lines_def prompt_rest_def)

lemma prompt_rest_split:
  "prompt_rest =
     ('' SOL'' @ CHR 0x0A # join_lines (take 53 (drop 7 SYSTEM_PROMPT_lines)) @ CHR 0x0A #
        ''Current USDC Balance: '') @ ''{usdcBalance}'' @
     ('' USDC'' @ CHR 0x0A # ''Current USDi Balance: '') @ ''{usdiBalance}'' @
     ('' USDi'' @ CHR 0x0A # ''Current SOL Balance: '') @ ''{solBalance}'' @ '' SOL''"
  by (simp add: SYSTEM_PROMPT_lines_def prompt_rest_def)

lemma includes_text_end: "includes_text (xs @ pat) pat"
  using includes_text_mid [of xs pat "[]"] by simp

lemma rendered_keeps_rest:
  "\<exists>X. systemPromptWithData to_fixed wallet usdcBalance usdiBalance solBalance = X @ prompt_rest"
proof -
  define A1 where
    "A1 = join_lines (take 3 SYSTEM_PROMPT_lines) @ CHR 0x0A # ''Wallet Address: '' @ ''{walletAddress}''"
  define B2 where "B2 = CHR 0x0A # ''Current USDC Balance: '' @ ''{usdcBalance}''"
  define B3 where "B3 = '' USDC'' @ CHR 0x0A # ''Current USDi Balance: '' @ ''{usdiBalance}''"
  define B4 where "B4 = '' USDi'' @ CHR 0x0A # ''Current SOL Balance: '' @ ''{solBalance}''"
  define r1 where
    "r1 = (case wallet of
             None \<Rightarrow> ''Not created yet''
           | Some w \<Rightarrow> if publicKey w = [] then ''Not created yet'' else publicKey w)"
  have split: "SYSTEM_PROMPT = A1 @ B2 @ B3 @ B4 @ prompt_rest"
    unfolding A1_def B2_def B3_def B4_def by (rule SYSTEM_PROMPT_split)
  have i1: "includes_text A1 ''{walletAddress}''"
    unfolding A1_def
    using includes_text_end [of "join_lines (take 3 SYSTEM_PROMPT_lines) @ CHR 0x0A # ''Wallet Address: ''"
        "''{walletAddress}''"]
    by (simp only: append_assoc append_Cons)
  have i2: "includes_text (X @ B2) ''{usdcBalance}''" for X
    unfolding B2_def
    using includes_text_end [of "X @ CHR 0x0A # ''Current USDC Balance: ''" "''{usdcBalance}''"]
    by (simp only: append_assoc append_Cons)
  have i3: "includes_text (X @ B3) ''{usdiBalance}''" for X
    unfolding B3_def
    using includes_text_end [of "X @ '' USDC'' @ CHR 0x0A # ''Current USDi Balance: ''" "''{usdiBalance}''"]
    by (simp only: append_assoc append_Cons)
  have i4: "includes_text (X @ B4) ''{solBalance}''" for X
    unfolding B4_def
    using includes_text_end [of "X @ '' USDi'' @ CHR 0x0A # ''Current SOL Balance: ''" "''{solBalance}''"]
    by (simp only: append_assoc append_Cons)
  obtain X1 where s1: "replace SYSTEM_PROMPT ''{walletAddress}'' r1 = X1 @ B2 @ B3 @ B4 @ prompt_rest"
    using replace_local [OF i1, of "B2 @ B3 @ B4 @ prompt_rest" r1] split by auto
  obtain X2 where s2:
    "replace (X1 @ B2 @ B3 @ B4 @ prompt_rest) ''{usdcBalance}'' (to_fixed usdcBalance 5) =
       X2 @ B3 @ B4 @ prompt_rest"
    using replace_local [OF i2, of X1 "B3 @ B4 @ prompt_rest" "to_fixed usdcBalance 5"] by auto
  obtain X3 where s3:
    "replace (X2 @ B3 @ B4 @ prompt_rest) ''{usdiBalance}'' (to_fixed usdiBalance 5) =
       X3 @ B4 @ prompt_rest"
    using replace_local [OF i3, of X2 "B4 @ prompt_rest" "to_fixed usdiBalance 5"] by auto
  obtain X4 where s4:
    "replace (X3 @ B4 @ prompt_rest) ''{solBalance}'' (to_fixed solBalance 5) = X4 @ prompt_rest"
    using replace_local [OF i4, of X3 prompt_rest "to_fixed solBalance 5"] by auto
  have "systemPromptWithData to_fixed wallet usdcBalance usdiBalance solBalance = X4 @ prompt_rest"
    unfolding systemPromptWithData_def r1_def [symmetric] s1 s2 s3 s4 ..
  then show ?thesis ..
qed

lemma prompt_rest_includes:
  "includes_text prompt_rest ''{usdcBalance}'' \<and>
   includes_text prompt_rest ''{usdiBalance}'' \<and>
   includes_text prompt_rest ''{solBalance}''"
proof -
  define M where
    "M = '' SOL'' @ CHR 0x0A # join_lines (take 53 (drop 7 SYSTEM_PROMPT_lines)) @ CHR 0x0A #
           ''Current USDC Balance: ''"
  define N where "N = '' USDC'' @ CHR 0x0A # ''Current USDi Balance: ''"
  define Q where "Q = '' USDi'' @ CHR 0x0A # ''Current SOL Balance: ''"
  have split: "prompt_rest = M @ ''{usdcBalance}'' @ N @ ''{usdiBalance}'' @ Q @ ''{solBalance}'' @ '' SOL''"
    unfolding M_def N_def Q_def by (rule prompt_rest_split)
  have "includes_text prompt_rest ''{usdcBalance}''"
    unfolding split by (rule includes_text_mid)
  moreover have "includes_text prompt_rest ''{usdiBalance}''"
    unfolding split
    using includes_text_mid [of "M @ ''{usdcBalance}'' @ N" "''{usdiBalance}''"]
    by (simp only: append_assoc)
  moreover have "includes_text prompt_rest ''{solBalance}''"
    unfolding split
    using includes_text_mid [of "M @ ''{usdcBalance}'' @ N @ ''{usdiBalance}'' @ Q" "''{solBalance}''"]
    by (simp only: append_assoc)
  ultimately show ?thesis by blast
qed

text \<open>
  C9. Each \<^verbatim>\<open>replace\<close> substitutes the first occurrence only, and the template names
  every balance placeholder twice: whatever the wallet, the balances and their rendering,
  the rendered block still contains \<^verbatim>\<open>{usdcBalance}\<close>, \<^verbatim>\<open>{usdiBalance}\<close> and
  \<^verbatim>\<open>{solBalance}\<close>.
\<close>

theorem placeholders_remain:
  "includes_text (systemPromptWithData to_fixed wallet usdcBalance usdiBalance solBalance)
     ''{usdcBalance}'' \<and>
   includes_text (systemPromptWithData to_fixed wallet usdcBalance usdiBalance solBalance)
     ''{usdiBalance}'' \<and>
   includes_text (systemPromptWithData to_fixed wallet usdcBalance usdiBalance solBalance)
     ''{solBalance}''"
proof -
  obtain X where "systemPromptWithData to_fixed wallet usdcBalance usdiBalance solBalance = X @ prompt_rest"
    using rendered_keeps_rest [of to_fixed wallet usdcBalance usdiBalance solBalance] by blast
  then show ?thesis
    using prompt_rest_includes by (simp add: includes_text_append_right)
qed

subsection \<open>The shape of a turn\<close>

lemma processMessage_reaches:
  assumes "message_text ctx = Some text" and "text \<noteq> []"
    and "from_id ctx = Some fid" and "fid \<noteq> 0"
    and "checkSolBalance env (int_toString fid) = Inr solBalance"
    and "checkUsdcBalance env (int_toString fid) = Inr usdcBalance"
    and "checkUsdiBalance env (int_toString fid) = Inr usdiBalance"
    and "getWallet env (int_toString fid) = Inr wallet"
    and msgs: "msgs = transcript_for (getHistory store (int_toString fid) None)
                  (systemPromptWithData (toFixed env) wallet usdcBalance usdiBalance solBalance) text"
  shows "processMessage env ctx store =
     (case try_block env msgs of
        (evs, None) \<Rightarrow>
          ([ConsoleLog (LogTranscript msgs), ConsoleLog (LogDetermining text)] @ evs, Returned)
      | (evs, Some error) \<Rightarrow>
          (case ctx_reply env (Plain ''Sorry, something went wrong.'') of
             (evs', None) \<Rightarrow>
               ([ConsoleLog (LogTranscript msgs), ConsoleLog (LogDetermining text)] @ evs
                  @ [ConsoleError error] @ evs', Returned)
           | (evs', Some e') \<Rightarrow>
               ([ConsoleLog (LogTranscript msgs), ConsoleLog (LogDetermining text)] @ evs
                  @ [ConsoleError error] @ evs', Escaped e')))"
  using assms(1-8) unfolding msgs
  by (simp add: processMessage_def Let_def split: prod.splits option.splits)

lemma try_block_tool:
  assumes "create_completion env msgs =
             Inr (Completion (CompletionMessage (Some (ToolCall name raw # tcs)) response # others))"
    and "JSON_parse (if raw = EmptyText then Serialised (JObj []) else raw) = Inr args"
  shows "try_block env msgs =
     ([ConsoleLog (LogToolCall (Some (ToolCall name raw))), ConsoleLog (LogResponse response)]
        @ fst (dispatch env name args),
      snd (dispatch env name args))"
  using assms
  by (cases "raw = EmptyText") (auto simp: try_block_def Let_def split: prod.splits)

lemma dispatch_unknown:
  "name \<notin> {''mint'', ''balance'', ''redeem'', ''withdraw'', ''deposit'', ''chat''} \<Longrightarrow>
     dispatch env name args = ([], None)"
  by (simp add: dispatch_def)

lemma dispatch_withdraw:
  "get_property args ''address'' = Inr address \<Longrightarrow> get_property args ''amount'' = Inr amount \<Longrightarrow>
     dispatch env ''withdraw'' args =
       ([Invoke (handleWithdrawalAddress address amount)],
        run_handler env (handleWithdrawalAddress address amount))"
  by (simp add: dispatch_def call_handler_def)

lemma dispatch_balance: "dispatch env ''balance'' args = ([Invoke handleBalance], run_handler env handleBalance)"
  by (simp add: dispatch_def call_handler_def)

lemma unknown_name_trace:
  assumes "message_text ctx = Some text" and "text \<noteq> []"
    and "from_id ctx = Some fid" and "fid \<noteq> 0"
    and "checkSolBalance env (int_toString fid) = Inr solBalance"
    and "checkUsdcBalance env (int_toString fid) = Inr usdcBalance"
    and "checkUsdiBalance env (int_toString fid) = Inr usdiBalance"
    and "getWallet env (int_toString fid) = Inr wallet"
    and msgs: "msgs = transcript_for (getHistory store (int_toString fid) None)
                  (systemPromptWithData (toFixed env) wallet usdcBalance usdiBalance solBalance) text"
    and "create_completion env msgs =
           Inr (Completion (CompletionMessage (Some (ToolCall name raw # tcs)) response # others))"
    and "JSON_parse (if raw = EmptyText then Serialised (JObj []) else raw) = Inr args"
    and "name \<notin> {''mint'', ''balance'', ''redeem'', ''withdraw'', ''deposit'', ''chat''}"
  shows "processMessage env ctx store =
     ([ConsoleLog (LogTranscript msgs), ConsoleLog (LogDetermining text),
       ConsoleLog (LogToolCall (Some (ToolCall name raw))), ConsoleLog (LogResponse response)],
      Returned)"
  by (simp add: processMessage_reaches [OF assms(1-9)] try_block_tool [OF assms(10,11)]
        dispatch_unknown [OF assms(12)])

lemma working_turn:
  "processMessage (working_env (selecting name args)) turn_42 empty_store =
     ([ConsoleLog (LogTranscript
         (transcript_for [] (systemPromptWithData (toFixed (working_env (selecting name args)))
            None 100 0 1) ''withdraw 5'')),
       ConsoleLog (LogDetermining ''withdraw 5''),
       ConsoleLog (LogToolCall (Some (ToolCall name (Serialised args)))),
       ConsoleLog (LogResponse None)]
      @ fst (case dispatch (working_env (selecting name args)) name args of
               (evs, None) \<Rightarrow> (evs, Returned)
             | (evs, Some error) \<Rightarrow>
                 (evs @ [ConsoleError error, Reply (Plain ''Sorry, something went wrong.'')],
                  Returned)),
      Returned)"
proof -
  let ?env = "working_env (selecting name args)"
  have reach: "processMessage ?env turn_42 empty_store =
     (case try_block ?env (transcript_for [] (systemPromptWithData (toFixed ?env) None 100 0 1)
                             ''withdraw 5'') of
        (evs, None) \<Rightarrow>
          ([ConsoleLog (LogTranscript (transcript_for []
               (systemPromptWithData (toFixed ?env) None 100 0 1) ''withdraw 5'')),
            ConsoleLog (LogDetermining ''withdraw 5'')] @ evs, Returned)
      | (evs, Some error) \<Rightarrow>
          (case ctx_reply ?env (Plain ''Sorry, something went wrong.'') of
             (evs', None) \<Rightarrow>
               ([ConsoleLog (LogTranscript (transcript_for []
                    (systemPromptWithData (toFixed ?env) None 100 0 1) ''withdraw 5'')),
                 ConsoleLog (LogDetermining ''withdraw 5'')] @ evs
                  @ [ConsoleError error] @ evs', Returned)
           | (evs', Some e') \<Rightarrow>
               ([ConsoleLog (LogTranscript (transcript_for []
                    (systemPromptWithData (toFixed ?env) None 100 0 1) ''withdraw 5'')),
                 ConsoleLog (LogDetermining ''withdraw 5'')] @ evs
                  @ [ConsoleError error] @ evs', Escaped e')))"
    by (rule processMessage_reaches [where fid = 42])
      (simp_all add: turn_42_def working_env_def empty_store_def getHistory_def)
  have tool: "try_block ?env msgs =
     ([ConsoleLog (LogToolCall (Some (ToolCall name (Serialised args)))),
       ConsoleLog (LogResponse None)] @ fst (dispatch ?env name args),
      snd (dispatch ?env name args))" for msgs
    by (rule try_block_tool [where tcs = "[]" and others = "[]"])
      (simp_all add: working_env_def selecting_def JSON_parse_def)
  show ?thesis
    unfolding reach tool
    by (cases "dispatch ?env name args")
      (auto simp: ctx_reply_def working_env_def split: option.splits)
qed

subsection \<open>The paths that do reply\<close>

text \<open>
  No tool call and no text: the fixed fallback reply. A fault of the completion service:
  the fixed apology.
\<close>

lemma nothing_selected_fallback:
  assumes "create_completion env msgs = Inr (Completion (CompletionMessage None None # others))"
    and "deliver env (Plain ''I couldn't process that request. Please try again.'') = None"
  shows "try_block env msgs =
     ([ConsoleLog (LogToolCall None), ConsoleLog (LogResponse None),
       Reply (Plain ''I couldn't process that request. Please try again.'')], None)"
  using assms by (simp add: try_block_def ctx_reply_def)

lemma service_fault_apology:
  assumes "message_text ctx = Some text" and "text \<noteq> []"
    and "from_id ctx = Some fid" and "fid \<noteq> 0"
    and "checkSolBalance env (int_toString fid) = Inr solBalance"
    and "checkUsdcBalance env (int_toString fid) = Inr usdcBalance"
    and "checkUsdiBalance env (int_toString fid) = Inr usdiBalance"
    and "getWallet env (int_toString fid) = Inr wallet"
    and "msgs = transcript_for (getHistory store (int_toString fid) None)
                  (systemPromptWithData (toFixed env) wallet usdcBalance usdiBalance solBalance) text"
    and "create_completion env msgs = Inl e"
    and "deliver env (Plain ''Sorry, something went wrong.'') = None"
  shows "processMessage env ctx store =
     ([ConsoleLog (LogTranscript msgs), ConsoleLog (LogDetermining text), ConsoleError e,
       Reply (Plain ''Sorry, something went wrong.'')], Returned)"
  using assms(10,11)
  by (simp add: processMessage_reaches [OF assms(1-9)] try_block_def ctx_reply_def)

subsection \<open>Dispatch\<close>

text \<open>
  C2. The service selects a tool named \<^verbatim>\<open>transfer\<close>, with arguments that parse and no
  free text, and every collaborator works: the turn returns normally and its trace has
  neither a handler call nor a reply.
\<close>

theorem unknown_action_no_outcome:
  "filter (\<lambda>e. is_invoke e \<or> is_reply e)
     (fst (processMessage (working_env (selecting ''transfer'' (JObj []))) turn_42 empty_store)) = [] \<and>
   snd (processMessage (working_env (selecting ''transfer'' (JObj []))) turn_42 empty_store) = Returned"
  unfolding working_turn
  by (simp add: dispatch_def)

text \<open>
  C3, as the claim states it, fails: the service selects \<^verbatim>\<open>withdraw\<close> with the
  arguments \<^verbatim>\<open>{"amount": 5}\<close>, which lack \<^verbatim>\<open>address\<close>, and the withdraw handler is
  called, with an undefined address.
\<close>

theorem withdraw_without_address_invoked:
  \<open>get_property (JObj [(''amount'', JNum 5)]) ''address'' = Inr None \<and>
   Invoke (handleWithdrawalAddress None (Some (JNum 5)))
     \<in> set (fst (processMessage (working_env (selecting ''withdraw'' (JObj [(''amount'', JNum 5)])))
                   turn_42 empty_store)) \<and>
   filter is_reply
     (fst (processMessage (working_env (selecting ''withdraw'' (JObj [(''amount'', JNum 5)])))
             turn_42 empty_store)) = []\<close>
  unfolding working_turn
  by (simp add: dispatch_def get_property_def call_handler_def working_env_def)

text \<open>
  C3, amended. Whenever a turn reaches the dispatcher with \<^verbatim>\<open>withdraw\<close> selected and
  arguments that parse to a value other than \<^verbatim>\<open>null\<close>, the withdraw handler is called
  exactly once, with \<^verbatim>\<open>args.address\<close> and \<^verbatim>\<open>args.amount\<close> as they are (undefined when
  absent), and no other handler is called; when the handler returns, the turn ends there,
  with no reply of the dispatcher's own.
\<close>

theorem withdraw_always_dispatched:
  assumes "message_text ctx = Some text" and "text \<noteq> []"
    and "from_id ctx = Some fid" and "fid \<noteq> 0"
    and "checkSolBalance env (int_toString fid) = Inr solBalance"
    and "checkUsdcBalance env (int_toString fid) = Inr usdcBalance"
    and "checkUsdiBalance env (int_toString fid) = Inr usdiBalance"
    and "getWallet env (int_toString fid) = Inr wallet"
    and "msgs = transcript_for (getHistory store (int_toString fid) None)
                  (systemPromptWithData (toFixed env) wallet usdcBalance usdiBalance solBalance) text"
    and "create_completion env msgs =
           Inr (Completion (CompletionMessage (Some (ToolCall ''withdraw'' raw # tcs)) response
                  # others))"
    and "JSON_parse (if raw = EmptyText then Serialised (JObj []) else raw) = Inr args"
    and "get_property args ''address'' = Inr address"
    and "get_property args ''amount'' = Inr amount"
  shows "filter is_invoke (fst (processMessage env ctx store)) =
           [Invoke (handleWithdrawalAddress address amount)] \<and>
         (run_handler env (handleWithdrawalAddress address amount) = None \<longrightarrow>
            processMessage env ctx store =
              ([ConsoleLog (LogTranscript msgs), ConsoleLog (LogDetermining text),
                ConsoleLog (LogToolCall (Some (ToolCall ''withdraw'' raw))),
                ConsoleLog (LogResponse response),
                Invoke (handleWithdrawalAddress address amount)],
               Returned))"
proof -
  have turn: "processMessage env ctx store =
     (case try_block env msgs of
        (evs, None) \<Rightarrow>
          ([ConsoleLog (LogTranscript msgs), ConsoleLog (LogDetermining text)] @ evs, Returned)
      | (evs, Some error) \<Rightarrow>
          (case ctx_reply env (Plain ''Sorry, something went wrong.'') of
             (evs', None) \<Rightarrow>
               ([ConsoleLog (LogTranscript msgs), ConsoleLog (LogDetermining text)] @ evs
                  @ [ConsoleError error] @ evs', Returned)
           | (evs', Some e') \<Rightarrow>
               ([ConsoleLog (LogTranscript msgs), ConsoleLog (LogDetermining text)] @ evs
                  @ [ConsoleError error] @ evs', Escaped e')))"
    by (rule processMessage_reaches [OF assms(1-9)])
  have body: "try_block env msgs =
     ([ConsoleLog (LogToolCall (Some (ToolCall ''withdraw'' raw))), ConsoleLog (LogResponse response),
       Invoke (handleWithdrawalAddress address amount)],
      run_handler env (handleWithdrawalAddress address amount))"
    by (simp add: try_block_tool [OF assms(10,11)] dispatch_withdraw [OF assms(12,13)])
  show ?thesis
    unfolding turn body
    by (simp add: ctx_reply_def split: option.splits)
qed

theorem withdraw_always_dispatched_witness:
  \<open>message_text turn_42 = Some ''withdraw 5'' \<and> from_id turn_42 = Some 42 \<and>
   JSON_parse (Serialised (JObj [(''amount'', JNum 5), (''address'', JStr ''9xQeWv'')])) =
     Inr (JObj [(''amount'', JNum 5), (''address'', JStr ''9xQeWv'')]) \<and>
   get_property (JObj [(''amount'', JNum 5), (''address'', JStr ''9xQeWv'')]) ''address'' =
     Inr (Some (JStr ''9xQeWv'')) \<and>
   filter is_invoke
     (fst (processMessage
             (working_env (selecting ''withdraw''
                (JObj [(''amount'', JNum 5), (''address'', JStr ''9xQeWv'')])))
             turn_42 empty_store)) =
     [Invoke (handleWithdrawalAddress (Some (JStr ''9xQeWv'')) (Some (JNum 5)))] \<and>
   filter is_reply
     (fst (processMessage
             (working_env (selecting ''withdraw''
                (JObj [(''amount'', JNum 5), (''address'', JStr ''9xQeWv'')])))
             turn_42 empty_store)) = [] \<and>
   snd (processMessage
          (working_env (selecting ''withdraw''
             (JObj [(''amount'', JNum 5), (''address'', JStr ''9xQeWv'')])))
          turn_42 empty_store) = Returned\<close>
proof -
  let ?args = "JObj [(''amount'', JNum 5), (''address'', JStr ''9xQeWv'')]"
  let ?env = "working_env (selecting ''withdraw'' ?args)"
  have parse: "JSON_parse (if Serialised ?args = EmptyText then Serialised (JObj [])
                           else Serialised ?args) = Inr ?args"
    by (simp add: JSON_parse_def)
  have address: "get_property ?args ''address'' = Inr (Some (JStr ''9xQeWv''))"
    by (simp add: get_property_def)
  have amount: "get_property ?args ''amount'' = Inr (Some (JNum 5))"
    by (simp add: get_property_def)
  have returns: "run_handler ?env (handleWithdrawalAddress (Some (JStr ''9xQeWv'')) (Some (JNum 5))) = None"
    by (simp add: working_env_def)
  have "filter is_invoke (fst (processMessage ?env turn_42 empty_store)) =
          [Invoke (handleWithdrawalAddress (Some (JStr ''9xQeWv'')) (Some (JNum 5)))] \<and>
        filter is_reply (fst (processMessage ?env turn_42 empty_store)) = [] \<and>
        snd (processMessage ?env turn_42 empty_store) = Returned"
    using withdraw_always_dispatched [of turn_42 "''withdraw 5''" 42 ?env 1 100 0 None _
        empty_store "Serialised ?args" "[]" None "[]" ?args "Some (JStr ''9xQeWv'')"
        "Some (JNum 5)", OF _ _ _ _ _ _ _ _ refl _ parse address amount] returns
    by (simp add: turn_42_def working_env_def selecting_def)
  with address show ?thesis
    by (simp add: turn_42_def JSON_parse_def)
qed

text \<open>
  C4. The first balance lookup throws in a turn with a message text and a user id: the
  fault leaves \<open>processMessage\<close>, and the trace is empty, so no reply was delivered.
\<close>

theorem balance_fault_escapes:
  "processMessage
     ((working_env (selecting ''chat'' (JObj [(''message'', JStr ''hi'')])))
        \<lparr>checkSolBalance := (\<lambda>uid. Inl (Fault ''RPC unavailable''))\<rparr>)
     turn_42 empty_store =
   ([], Escaped (Fault ''RPC unavailable''))"
  by (simp add: processMessage_def turn_42_def working_env_def)

text \<open>
  C5, as the claim states it, fails: \<^verbatim>\<open>balance\<close> is outside the set
  \<^verbatim>\<open>{mint, redeem, withdraw, deposit, chat}\<close>, and the dispatcher calls the balance handler
  for it.
\<close>

theorem balance_is_dispatched:
  "''balance'' \<notin> {''mint'', ''redeem'', ''withdraw'', ''deposit'', ''chat''} \<and>
   filter is_invoke
     (fst (processMessage (working_env (selecting ''balance'' (JObj []))) turn_42 empty_store)) =
     [Invoke handleBalance]"
  unfolding working_turn
  by (simp add: dispatch_def call_handler_def working_env_def)

text \<open>
  C5, amended. Whenever a turn reaches the dispatcher with a selection whose name is none
  of \<^verbatim>\<open>mint\<close>, \<^verbatim>\<open>balance\<close>, \<^verbatim>\<open>redeem\<close>, \<^verbatim>\<open>withdraw\<close>, \<^verbatim>\<open>deposit\<close>, \<^verbatim>\<open>chat\<close> and
  whose arguments parse, no handler is called and \<open>processMessage\<close> returns normally.
\<close>

theorem unknown_action_no_handler:
  assumes "message_text ctx = Some text" and "text \<noteq> []"
    and "from_id ctx = Some fid" and "fid \<noteq> 0"
    and "checkSolBalance env (int_toString fid) = Inr solBalance"
    and "checkUsdcBalance env (int_toString fid) = Inr usdcBalance"
    and "checkUsdiBalance env (int_toString fid) = Inr usdiBalance"
    and "getWallet env (int_toString fid) = Inr wallet"
    and "msgs = transcript_for (getHistory store (int_toString fid) None)
                  (systemPromptWithData (toFixed env) wallet usdcBalance usdiBalance solBalance) text"
    and "create_completion env msgs =
           Inr (Completion (CompletionMessage (Some (ToolCall name raw # tcs)) response # others))"
    and "JSON_parse (if raw = EmptyText then Serialised (JObj []) else raw) = Inr args"
    and "name \<notin> {''mint'', ''balance'', ''redeem'', ''withdraw'', ''deposit'', ''chat''}"
  shows "filter is_invoke (fst (processMessage env ctx store)) = [] \<and>
         snd (processMessage env ctx store) = Returned"
  by (simp add: unknown_name_trace [OF assms])

theorem unknown_action_no_handler_witness:
  "message_text turn_42 = Some ''withdraw 5'' \<and> from_id turn_42 = Some 42 \<and>
   ''swap'' \<notin> {''mint'', ''balance'', ''redeem'', ''withdraw'', ''deposit'', ''chat''} \<and>
   filter is_invoke
     (fst (processMessage (working_env (selecting ''swap'' (JObj []))) turn_42 empty_store)) = [] \<and>
   snd (processMessage (working_env (selecting ''swap'' (JObj []))) turn_42 empty_store) = Returned"
proof -
  let ?env = "working_env (selecting ''swap'' (JObj []))"
  have parse: "JSON_parse (if Serialised (JObj []) = EmptyText then Serialised (JObj [])
                           else Serialised (JObj [])) = Inr (JObj [])"
    by (simp add: JSON_parse_def)
  have name: "''swap'' \<notin> {''mint'', ''balance'', ''redeem'', ''withdraw'', ''deposit'', ''chat''}"
    by simp
  have "filter is_invoke (fst (processMessage ?env turn_42 empty_store)) = [] \<and>
        snd (processMessage ?env turn_42 empty_store) = Returned"
    using unknown_action_no_handler [of turn_42 "''withdraw 5''" 42 ?env 1 100 0 None _
        empty_store "''swap''" "Serialised (JObj [])" "[]" None "[]" "JObj []",
        OF _ _ _ _ _ _ _ _ refl _ parse name]
    by (simp add: turn_42_def working_env_def selecting_def)
  with name show ?thesis
    by (simp add: turn_42_def)
qed

end
